theory Spec2Isabelle
  imports Complex_Main "HOL-Library.Sublist" "HOL-Library.AList"
begin

section \<open>Data model of the dashboard (frontend/src/App.js)\<close>

text \<open>
  The dashboard is a React component. Its JSON payloads are modelled as records whose
  optional members are \<open>option\<close>s (\<open>None\<close> is JavaScript's \<open>undefined\<close> or \<open>null\<close>).
  JavaScript numbers are modelled as real numbers: the rounding error of IEEE doubles is
  not represented, and neither are \<open>NaN\<close> and the infinities.
\<close>

record GameState =
  game_id :: string
  quarter :: int
  time_remaining :: string
  home_team :: string
  away_team :: string
  home_score :: int
  away_score :: int
  status :: string

record StatProjection =
  predicted_value :: "real option"
  confidence :: "real option"
  probability_over :: "real option"
  live_stats :: "real option"

text \<open>
  A player's prediction object. Its member \<open>predictions\<close> (stat category to projection)
  is the field \<open>stat_predictions\<close> here, since \<open>predictions\<close> is also the name of the
  component's state variable below.
\<close>

record Prediction =
  player_id :: string
  player_name :: "string option"
  position :: "string option"
  stat_predictions :: "(string \<times> StatProjection) list option"
  overall_confidence :: "real option"

record Explanation =
  overall_summary :: "string option"
  key_factors :: "string list option"

record ForecastRecord =
  prediction :: Prediction
  explanation :: "Explanation option"

record LiveEvent =
  ev_id :: string
  ev_type :: string
  ev_description :: string
  ev_quarter :: int
  ev_timestamp :: string

record Scenario =
  sc_description :: string

record ChatMessage =
  cm_id :: int
  cm_type :: string
  cm_text :: string
  cm_playerName :: "string option"
  cm_playerId :: "string option"

text \<open>An inbound message object: every member but the ones a branch reads is ignored.\<close>

record message =
  msg_type :: "string option"
  msg_game_state :: "GameState option"
  msg_initial_predictions :: "ForecastRecord list option"
  msg_event :: "LiveEvent option"
  msg_updated_prediction :: "Prediction option"
  msg_explanation :: "Explanation option"
  msg_scenario :: "Scenario option"
  msg_updated_predictions :: "ForecastRecord list option"
  msg_answer :: "string option"
  msg_player_name :: "string option"
  msg_player_id :: "string option"

text \<open>What \<open>JSON.parse\<close> can return: \<open>null\<close>, a value with no members to read (a number,
  a string, a boolean, an array), or an object.\<close>

datatype parsed = ParsedNull | ParsedOther | ParsedObject message

datatype ws_data = Malformed | Json parsed

datatype js_error = SyntaxError | TypeError | InvalidStateError

datatype ready_state = CONNECTING | OPEN | CLOSING | CLOSED

datatype outbound =
  game_reset GameState
  | scenario_change string real
  | cedar_question string "string option"

datatype effect =
  console_log
  | console_warn
  | console_error
  | socket_send outbound
  | setTimeout_clear_scenario nat

text \<open>The component's state that the stream handler reads and writes. \<open>wsRef\<close> is the
  socket held by the ref, seen through its \<open>readyState\<close>.\<close>

record app_state =
  gameState :: "GameState option"
  predictions :: "ForecastRecord list"
  liveEvents :: "LiveEvent list"
  scenario :: "Scenario option"
  chatMessages :: "ChatMessage list"
  isAssistantThinking :: bool
  isConnected :: bool
  wsRef :: "ready_state option"

text \<open>What a handler invocation reads from outside the state: the \<open>predictions\<close> binding
  of the render that installed the handler, \<open>Date.now()\<close> and \<open>Math.random()\<close>.\<close>

record handler_env =
  seen_predictions :: "ForecastRecord list"
  now :: int
  random :: real

section \<open>The stream handler (websocket.onmessage)\<close>

definition initialGameState :: GameState where
  "initialGameState =
     \<lparr>game_id = ''sim_game_001'', quarter = 1, time_remaining = ''15:00'',
      home_team = ''Philadelphia Eagles'', away_team = ''Generic Opponents'',
      home_score = 0, away_score = 0, status = ''in_progress''\<rparr>"

definition initial_state :: app_state where
  "initial_state =
     \<lparr>gameState = Some initialGameState, predictions = [], liveEvents = [],
      scenario = None, chatMessages = [], isAssistantThinking = False,
      isConnected = False, wsRef = Some CONNECTING\<rparr>"

text \<open>\<open>safeSend\<close>: sends only through an open socket; \<open>send\<close> on an open socket does
  not throw.\<close>

definition safeSend :: "app_state \<Rightarrow> outbound \<Rightarrow> effect list" where
  "safeSend st payload =
     (case wsRef st of
        Some OPEN \<Rightarrow> [socket_send payload]
      | _ \<Rightarrow> [])"

definition JSON_parse :: "ws_data \<Rightarrow> js_error + parsed" where
  "JSON_parse d = (case d of Malformed \<Rightarrow> Inl SyntaxError | Json v \<Rightarrow> Inr v)"

text \<open>\<open>Array.prototype.findIndex\<close>: the first index whose element satisfies the
  predicate; \<open>None\<close> is the source's \<open>-1\<close>.\<close>

fun findIndex :: "('a \<Rightarrow> bool) \<Rightarrow> 'a list \<Rightarrow> nat option" where
  "findIndex P [] = None"
| "findIndex P (x # xs) = (if P x then Some 0 else map_option Suc (findIndex P xs))"

definition handle_tick :: "app_state \<Rightarrow> message \<Rightarrow> app_state \<times> effect list" where
  "handle_tick st m =
     (case msg_game_state m of
        None \<Rightarrow> (st, [])
      | Some gs \<Rightarrow>
          if quarter gs = 4 \<and> time_remaining gs = ''0:00''
          then (st, safeSend st (game_reset initialGameState))
          else (st\<lparr>gameState := Some gs\<rparr>, []))"

definition handle_game_initialized :: "app_state \<Rightarrow> message \<Rightarrow> app_state" where
  "handle_game_initialized st m =
     (let st1 = st\<lparr>gameState := msg_game_state m\<rparr> in
      case msg_initial_predictions m of
        None \<Rightarrow> st1
      | Some ps \<Rightarrow> if length ps > 0 then st1\<lparr>predictions := ps\<rparr> else st1)"

definition newEvent :: "LiveEvent \<Rightarrow> LiveEvent" where
  "newEvent e =
     \<lparr>ev_id = ev_id e, ev_type = ev_type e, ev_description = ev_description e,
      ev_quarter = ev_quarter e, ev_timestamp = ev_timestamp e\<rparr>"

text \<open>The updater passed to \<open>setLiveEvents\<close>.\<close>

definition addLiveEvent :: "LiveEvent \<Rightarrow> LiveEvent list \<Rightarrow> LiveEvent list" where
  "addLiveEvent ne prev =
     (if list_ex (\<lambda>e. ev_id e = ev_id ne) prev then prev else take 5 (ne # prev))"

text \<open>The updater passed to \<open>setPredictions\<close> when \<open>updated_prediction\<close> is present.\<close>

definition replacePrediction ::
  "Prediction \<Rightarrow> Explanation option \<Rightarrow> ForecastRecord list \<Rightarrow> ForecastRecord list" where
  "replacePrediction up ex prev =
     (case findIndex (\<lambda>p. player_id (prediction p) = player_id up) prev of
        Some playerIndex \<Rightarrow> prev[playerIndex := \<lparr>prediction = up, explanation = ex\<rparr>]
      | None \<Rightarrow> prev)"

text \<open>The \<open>live_update\<close> branch. \<open>setGameState\<close> has been called when \<open>message.event.id\<close>
  throws for a message without \<open>event\<close>, so the thrown error comes with the state
  already updated.\<close>

definition handle_live_update :: "app_state \<Rightarrow> message \<Rightarrow> app_state \<times> js_error option" where
  "handle_live_update st m =
     (let st1 = st\<lparr>gameState := msg_game_state m\<rparr> in
      case msg_event m of
        None \<Rightarrow> (st1, Some TypeError)
      | Some ev \<Rightarrow>
          let st2 = st1\<lparr>liveEvents := addLiveEvent (newEvent ev) (liveEvents st1)\<rparr> in
          (case msg_updated_prediction m of
             None \<Rightarrow> (st2, None)
           | Some up \<Rightarrow>
               (st2\<lparr>predictions := replacePrediction up (msg_explanation m) (predictions st2)\<rparr>,
                None)))"

definition handle_scenario_update :: "app_state \<Rightarrow> message \<Rightarrow> app_state \<times> effect list" where
  "handle_scenario_update st m =
     (let st1 = st\<lparr>scenario := msg_scenario m\<rparr>;
          st2 = (case msg_updated_predictions m of
                   None \<Rightarrow> st1
                 | Some ps \<Rightarrow> st1\<lparr>predictions := ps\<rparr>)
      in (st2, [setTimeout_clear_scenario 5000]))"

text \<open>\<open>x || null\<close> on a string: the empty string is falsy.\<close>

definition truthy_string :: "string option \<Rightarrow> string option" where
  "truthy_string s = (case s of Some v \<Rightarrow> (if v = [] then None else Some v) | None \<Rightarrow> None)"

definition handle_cedar_answer :: "handler_env \<Rightarrow> app_state \<Rightarrow> message \<Rightarrow> app_state" where
  "handle_cedar_answer env st m =
     (let playerName0 = truthy_string (msg_player_name m);
          playerName =
            (if playerName0 = None \<and> truthy_string (msg_player_id m) \<noteq> None
             then (case find (\<lambda>p. Some (player_id (prediction p)) = msg_player_id m)
                          (seen_predictions env) of
                     None \<Rightarrow> None
                   | Some found \<Rightarrow> truthy_string (player_name (prediction found)))
             else playerName0);
          assistantMsg =
            \<lparr>cm_id = now env + \<lfloor>random env * 1000\<rfloor>, cm_type = ''assistant'',
             cm_text = (case truthy_string (msg_answer m) of
                          None \<Rightarrow> ''No answer available.'' | Some a \<Rightarrow> a),
             cm_playerName = playerName, cm_playerId = msg_player_id m\<rparr>
      in st\<lparr>chatMessages := chatMessages st @ [assistantMsg], isAssistantThinking := False\<rparr>)"

text \<open>The body of the handler's second \<open>try\<close>: the new state, the effects, and the
  error thrown, if any. Reading \<open>message.type\<close> of \<open>null\<close> throws before anything else.\<close>

definition handle_message ::
  "handler_env \<Rightarrow> app_state \<Rightarrow> parsed \<Rightarrow> app_state \<times> effect list \<times> js_error option" where
  "handle_message env st v =
     (case v of
        ParsedNull \<Rightarrow> (st, [], Some TypeError)
      | ParsedOther \<Rightarrow> (st, [console_log], None)
      | ParsedObject m \<Rightarrow>
          if msg_type m = Some ''tick''
          then (let (st', effs) = handle_tick st m in (st', console_log # effs, None))
          else if msg_type m = Some ''game_initialized''
          then (handle_game_initialized st m, [console_log], None)
          else if msg_type m = Some ''live_update''
          then (let (st', thrown) = handle_live_update st m in (st', [console_log], thrown))
          else if msg_type m = Some ''scenario_update''
          then (let (st', effs) = handle_scenario_update st m in (st', console_log # effs, None))
          else if msg_type m = Some ''cedar_answer''
          then (handle_cedar_answer env st m, [console_log], None)
          else (st, [console_log], None))"

text \<open>\<open>websocket.onmessage\<close>: a payload that does not parse is logged and dropped; an
  error thrown while handling a parsed message is caught and logged.\<close>

definition onmessage :: "handler_env \<Rightarrow> app_state \<Rightarrow> ws_data \<Rightarrow> app_state \<times> effect list" where
  "onmessage env st d =
     (case JSON_parse d of
        Inl err \<Rightarrow> (st, [console_error])
      | Inr v \<Rightarrow>
          (let (st', effs, thrown) = handle_message env st v in
           (st', effs @ (case thrown of None \<Rightarrow> [] | Some err \<Rightarrow> [console_error]))))"

text \<open>Messages are applied in arrival order; each comes with its own reading of the clock
  and of the random source.\<close>

fun run :: "app_state \<Rightarrow> (handler_env \<times> ws_data) list \<Rightarrow> app_state" where
  "run st [] = st"
| "run st ((env, d) # rest) = run (fst (onmessage env st d)) rest"

section \<open>The lineup evaluator (localEvaluateLineup, evaluateLineup)\<close>

record RosterPlayer =
  pl_id :: string
  pl_name :: string

text \<open>A lineup object: position tag to player or \<open>null\<close>, in insertion order of the keys.\<close>

type_synonym lineup = "(string \<times> RosterPlayer option) list"

definition PLAY_POSITIONS :: "string list" where
  "PLAY_POSITIONS = [''QB'', ''RB'', ''WR1'', ''WR2'', ''TE'', ''K'', ''DEF'']"

text \<open>\<open>PLAY_POSITIONS.reduce((acc, p) => ({ ...acc, [p]: null }), {})\<close>\<close>

definition emptyLineup :: lineup where
  "emptyLineup = foldl (\<lambda>acc p. AList.update p None acc) [] PLAY_POSITIONS"

text \<open>\<open>prev => ({ ...prev, [position]: player })\<close>\<close>

definition assignPlayerToPosition :: "string \<Rightarrow> RosterPlayer \<Rightarrow> lineup \<Rightarrow> lineup" where
  "assignPlayerToPosition pos player prev = AList.update pos (Some player) prev"

text \<open>\<open>Object.values(obj).filter(Boolean).map(p => p.id)\<close>\<close>

definition lineupIds :: "lineup \<Rightarrow> string list" where
  "lineupIds obj = map pl_id (List.map_filter (\<lambda>v. v) (map snd obj))"

text \<open>
  One call of \<open>apiGetPlayerPredictions\<close>: the promise resolves (possibly to \<open>null\<close>), or
  it rejects, or the call itself throws before returning a promise. The \<open>async\<close>
  function of services/api.js never does the last; the case is kept so that the
  \<open>catch\<close> block of \<open>localEvaluateLineup\<close> is a branch of the model.
\<close>

datatype fetch_outcome = Resolved "Prediction option" | Rejected | Threw

text \<open>\<open>Promise.all(ids.map(id => api(id).catch(() => null)))\<close>\<close>

definition fetch_all ::
  "(string \<Rightarrow> fetch_outcome) \<Rightarrow> string list \<Rightarrow> js_error + Prediction option list" where
  "fetch_all api ids =
     (if list_ex (\<lambda>i. api i = Threw) ids then Inl TypeError
      else Inr (map (\<lambda>i. case api i of Resolved v \<Rightarrow> v | _ \<Rightarrow> None) ids))"

text \<open>\<open>x || d\<close> on a number: \<open>undefined\<close> and \<open>0\<close> are falsy.\<close>

definition or_num :: "real option \<Rightarrow> real \<Rightarrow> real" where
  "or_num x d = (case x of None \<Rightarrow> d | Some v \<Rightarrow> if v = 0 then d else v)"

text \<open>\<open>p.predictions?.[k]?.predicted_value\<close>\<close>

definition predicted :: "Prediction \<Rightarrow> string \<Rightarrow> real option" where
  "predicted p k =
     (case stat_predictions p of
        None \<Rightarrow> None
      | Some m \<Rightarrow> (case map_of m k of None \<Rightarrow> None | Some s \<Rightarrow> predicted_value s))"

record summary_acc =
  confidenceSum :: real
  count :: nat
  acc_points :: real
  acc_yards :: real

record summary =
  avgConfidence :: real
  points :: real
  yards :: real

text \<open>The body of \<open>preds.forEach\<close> in \<open>summarize\<close>.\<close>

definition summarize_step :: "summary_acc \<Rightarrow> Prediction option \<Rightarrow> summary_acc" where
  "summarize_step acc p0 =
     (case p0 of
        None \<Rightarrow> acc
      | Some p \<Rightarrow>
          let c = or_num (overall_confidence p) 0.7;
              td = or_num (predicted p ''touchdowns'') 0;
              passY = or_num (predicted p ''passing_yards'') 0;
              rushY = or_num (predicted p ''rushing_yards'') 0;
              recvY = or_num (predicted p ''receiving_yards'') 0
          in \<lparr>confidenceSum = confidenceSum acc + c,
              count = count acc + 1,
              acc_points = acc_points acc + (td * 6 + 0.02 * (passY + rushY + recvY)),
              acc_yards = acc_yards acc + (passY + rushY + recvY)\<rparr>)"

definition summarize :: "Prediction option list \<Rightarrow> summary" where
  "summarize preds =
     (let acc = foldl summarize_step
                  \<lparr>confidenceSum = 0, count = 0, acc_points = 0, acc_yards = 0\<rparr> preds
      in \<lparr>avgConfidence = (if count acc \<noteq> 0 then confidenceSum acc / real (count acc) else 0.7),
          points = acc_points acc,
          yards = acc_yards acc\<rparr>)"

text \<open>\<open>Math.round\<close>: the nearest integer, a tie going up.\<close>

definition Math_round :: "real \<Rightarrow> int" where
  "Math_round x = \<lfloor>x + 1 / 2\<rfloor>"

definition sigmoid :: "real \<Rightarrow> real" where
  "sigmoid x = 1 / (1 + exp (- 6 * x))"

definition homeStrength :: "summary \<Rightarrow> summary \<Rightarrow> real" where
  "homeStrength h a = avgConfidence h * 0.6 + (points h / max 1 (points a + 1)) * 0.4"

definition awayStrength :: "summary \<Rightarrow> summary \<Rightarrow> real" where
  "awayStrength h a = avgConfidence a * 0.6 + (points a / max 1 (points h + 1)) * 0.4"

record EvaluationResult =
  winProbability :: "real option"
  expectedPointsHome :: "real option"
  expectedPointsAway :: "real option"
  expectedYardsHome :: "real option"
  expectedYardsAway :: "real option"
  avgPlayerConfidenceHome :: "real option"
  avgPlayerConfidenceAway :: "real option"

text \<open>The part of the \<open>try\<close> block of \<open>localEvaluateLineup\<close> after the two awaits.\<close>

definition heuristic :: "Prediction option list \<Rightarrow> Prediction option list \<Rightarrow> EvaluationResult" where
  "heuristic homePreds awayPreds =
     (let h = summarize homePreds;
          a = summarize awayPreds;
          diff = homeStrength h a - awayStrength h a;
          wp = max 0.02 (min 0.98 (sigmoid diff))
      in \<lparr>winProbability = Some (real_of_int (Math_round (wp * 1000)) / 10),
          expectedPointsHome = Some (real_of_int (Math_round (points h * 10)) / 10),
          expectedPointsAway = Some (real_of_int (Math_round (points a * 10)) / 10),
          expectedYardsHome = Some (real_of_int (Math_round (yards h))),
          expectedYardsAway = Some (real_of_int (Math_round (yards a))),
          avgPlayerConfidenceHome = Some (real_of_int (Math_round (avgConfidence h * 1000)) / 10),
          avgPlayerConfidenceAway = Some (real_of_int (Math_round (avgConfidence a * 1000)) / 10)\<rparr>)"

definition localEvaluateLineup_try ::
  "(string \<Rightarrow> fetch_outcome) \<Rightarrow> lineup \<Rightarrow> lineup \<Rightarrow> js_error + EvaluationResult" where
  "localEvaluateLineup_try api homeObj awayObj =
     (case fetch_all api (lineupIds homeObj) of
        Inl err \<Rightarrow> Inl err
      | Inr homePreds \<Rightarrow>
          (case fetch_all api (lineupIds awayObj) of
             Inl err \<Rightarrow> Inl err
           | Inr awayPreds \<Rightarrow> Inr (heuristic homePreds awayPreds)))"

text \<open>The value of the \<open>catch\<close> block; \<open>r\<close> is the reading of \<open>Math.random()\<close>.\<close>

definition neutral_fallback :: "real \<Rightarrow> EvaluationResult" where
  "neutral_fallback r =
     \<lparr>winProbability = Some (real_of_int (Math_round ((0.5 + (r - 0.5) * 0.15) * 1000)) / 10),
      expectedPointsHome = None, expectedPointsAway = None,
      expectedYardsHome = None, expectedYardsAway = None,
      avgPlayerConfidenceHome = None, avgPlayerConfidenceAway = None\<rparr>"

definition localEvaluateLineup ::
  "(string \<Rightarrow> fetch_outcome) \<Rightarrow> real \<Rightarrow> lineup \<Rightarrow> lineup \<Rightarrow> EvaluationResult" where
  "localEvaluateLineup api r homeObj awayObj =
     (case localEvaluateLineup_try api homeObj awayObj of
        Inr res \<Rightarrow> res
      | Inl err \<Rightarrow> neutral_fallback r)"

record lineup_payload =
  homeTeamId :: "string option"
  awayTeamId :: "string option"
  homePositions :: "(string \<times> string option) list"
  awayPositions :: "(string \<times> string option) list"

text \<open>The server call: it resolves to a value (possibly \<open>null\<close>) or fails (a rejected
  promise or an exception, both caught by the inner \<open>try\<close>).\<close>

datatype server_outcome = ServerResolved "EvaluationResult option" | ServerFailed

record play_state =
  playHomeTeam :: "string option"
  playAwayTeam :: "string option"
  homeLineup :: lineup
  awayLineup :: lineup
  evaluationResult :: "EvaluationResult option"
  evaluatingLineup :: bool

text \<open>
  \<open>evaluateLineup\<close>. No statement of its outer \<open>try\<close> block throws (the server call has
  its own \<open>try\<close>, and \<open>localEvaluateLineup\<close> catches everything it raises), so the outer
  \<open>catch\<close> is not entered; \<open>finally\<close> clears the busy flag.
\<close>

definition lineup_payload_of :: "play_state \<Rightarrow> lineup_payload" where
  "lineup_payload_of ps =
     \<lparr>homeTeamId = playHomeTeam ps, awayTeamId = playAwayTeam ps,
      homePositions = map (\<lambda>(k, v). (k, map_option pl_id v)) (homeLineup ps),
      awayPositions = map (\<lambda>(k, v). (k, map_option pl_id v)) (awayLineup ps)\<rparr>"

definition evaluateLineup ::
  "(lineup_payload \<Rightarrow> server_outcome) \<Rightarrow> (string \<Rightarrow> fetch_outcome) \<Rightarrow> real \<Rightarrow>
   play_state \<Rightarrow> play_state" where
  "evaluateLineup apiEvaluateLineup apiGetPlayerPredictions r ps =
     (let payload = lineup_payload_of ps;
          res = (case apiEvaluateLineup payload of
                   ServerResolved server \<Rightarrow> server
                 | ServerFailed \<Rightarrow> None);
          local = localEvaluateLineup apiGetPlayerPredictions r (homeLineup ps) (awayLineup ps);
          final = (case res of
                     None \<Rightarrow> local
                   | Some sres \<Rightarrow> if winProbability sres \<noteq> None then sres else local)
      in ps\<lparr>evaluationResult := Some final, evaluatingLineup := False\<rparr>)"

section \<open>Display of confidence and probability\<close>

text \<open>\<open>Number.prototype.toFixed(0)\<close>, as the integer whose digits it prints.\<close>

definition toFixed0 :: "real \<Rightarrow> int" where
  "toFixed0 x = (if x < 0 then - \<lfloor>- x + 1 / 2\<rfloor> else \<lfloor>x + 1 / 2\<rfloor>)"

text \<open>\<open>ConfidenceCircle\<close>: the fraction \<open>pct\<close> it draws, and the percentage it prints.\<close>

definition ConfidenceCircle_pct :: "real option \<Rightarrow> real" where
  "ConfidenceCircle_pct c = max 0 (min 1 (or_num c 0))"

definition ConfidenceCircle_text :: "real option \<Rightarrow> int" where
  "ConfidenceCircle_text c = toFixed0 (ConfidenceCircle_pct c * 100)"

text \<open>The per-stat tile of a forecast card: the "Over" percentage, the width of the
  confidence bar (in percent) and the confidence percentage; \<open>None\<close> is \<open>N/A\<close>
  (for the width, \<open>NaN\<close>).\<close>

definition stat_over_text :: "StatProjection \<Rightarrow> int option" where
  "stat_over_text statData =
     (case probability_over statData of
        None \<Rightarrow> None
      | Some v \<Rightarrow> if v = 0 then None else Some (toFixed0 (v * 100)))"

definition stat_bar_width :: "StatProjection \<Rightarrow> real option" where
  "stat_bar_width statData = map_option (\<lambda>c. c * 100) (confidence statData)"

definition stat_confidence_text :: "StatProjection \<Rightarrow> int option" where
  "stat_confidence_text statData =
     (case confidence statData of
        None \<Rightarrow> None
      | Some v \<Rightarrow> if v = 0 then None else Some (toFixed0 (v * 100)))"

section \<open>The quantities the specification speaks of\<close>

subsection \<open>Live events\<close>

text \<open>The event a payload carries into the live-event list, if any, and the events of a
  whole input sequence in arrival order.\<close>

definition carried :: "ws_data \<Rightarrow> LiveEvent list" where
  "carried d =
     (case d of
        Json (ParsedObject m) \<Rightarrow>
          (if msg_type m = Some ''live_update''
           then (case msg_event m of None \<Rightarrow> [] | Some ev \<Rightarrow> [newEvent ev])
           else [])
      | _ \<Rightarrow> [])"

definition arrived :: "(handler_env \<times> ws_data) list \<Rightarrow> LiveEvent list" where
  "arrived inputs = concat (map (\<lambda>(env, d). carried d) inputs)"

definition step_events :: "ws_data \<Rightarrow> LiveEvent list \<Rightarrow> LiveEvent list" where
  "step_events d evs =
     (case d of
        Json (ParsedObject m) \<Rightarrow>
          (if msg_type m = Some ''live_update''
           then (case msg_event m of None \<Rightarrow> evs | Some ev \<Rightarrow> addLiveEvent (newEvent ev) evs)
           else evs)
      | _ \<Rightarrow> evs)"

definition retained_ok :: "LiveEvent list \<Rightarrow> bool" where
  "retained_ok evs = (distinct (map ev_id evs) \<and> length evs \<le> 5)"

subsection \<open>The local heuristic, in the specification's words\<close>

text \<open>The records a side's fetches produced: an assigned player whose fetch failed has
  none.\<close>

definition available :: "Prediction option list \<Rightarrow> Prediction list" where
  "available preds = List.map_filter (\<lambda>v. v) preds"

text \<open>A stat category's predicted value, 0 when the category is absent.\<close>

definition stat_or_zero :: "Prediction \<Rightarrow> string \<Rightarrow> real" where
  "stat_or_zero p k = (case predicted p k of None \<Rightarrow> 0 | Some v \<Rightarrow> v)"

definition player_yards :: "Prediction \<Rightarrow> real" where
  "player_yards p =
     stat_or_zero p ''passing_yards'' + stat_or_zero p ''rushing_yards'' +
     stat_or_zero p ''receiving_yards''"

definition player_points :: "Prediction \<Rightarrow> real" where
  "player_points p = 6 * stat_or_zero p ''touchdowns'' + 0.02 * player_yards p"

text \<open>A record's \<open>overall_confidence\<close>, 0.7 when it is absent or zero.\<close>

definition player_confidence :: "Prediction \<Rightarrow> real" where
  "player_confidence p =
     (case overall_confidence p of None \<Rightarrow> 0.7 | Some c \<Rightarrow> if c = 0 then 0.7 else c)"

definition side_points :: "Prediction option list \<Rightarrow> real" where
  "side_points preds = sum_list (map player_points (available preds))"

definition side_yards :: "Prediction option list \<Rightarrow> real" where
  "side_yards preds = sum_list (map player_yards (available preds))"

definition side_confidence :: "Prediction option list \<Rightarrow> real" where
  "side_confidence preds =
     (if available preds = [] then 0.7
      else sum_list (map player_confidence (available preds)) / real (length (available preds)))"

text \<open>The strength as the specification writes it, and with the source's guard on the
  divisor.\<close>

definition spec_strength :: "real \<Rightarrow> real \<Rightarrow> real \<Rightarrow> real" where
  "spec_strength avg own opp = 0.6 * avg + 0.4 * (own / (opp + 1))"

definition guarded_strength :: "real \<Rightarrow> real \<Rightarrow> real \<Rightarrow> real" where
  "guarded_strength avg own opp = 0.6 * avg + 0.4 * (own / max 1 (opp + 1))"

definition logistic :: "real \<Rightarrow> real" where
  "logistic z = 1 / (1 + exp (- z))"

definition clamp :: "real \<Rightarrow> real \<Rightarrow> real \<Rightarrow> real" where
  "clamp lo hi x = max lo (min hi x)"

text \<open>A fraction as a percentage rounded to one decimal place.\<close>

definition percent1 :: "real \<Rightarrow> real" where
  "percent1 x = real_of_int \<lfloor>x * 1000 + 1 / 2\<rfloor> / 10"

text \<open>The reported win probability as a function of the strength difference.\<close>

definition report :: "real \<Rightarrow> real" where
  "report d = real_of_int (Math_round (max 0.02 (min 0.98 (sigmoid d)) * 1000)) / 10"

section \<open>Sample inputs\<close>

definition env0 :: handler_env where
  "env0 = \<lparr>seen_predictions = [], now = 0, random = 0\<rparr>"

definition blank_message :: message where
  "blank_message =
     \<lparr>msg_type = None, msg_game_state = None, msg_initial_predictions = None,
      msg_event = None, msg_updated_prediction = None, msg_explanation = None,
      msg_scenario = None, msg_updated_predictions = None, msg_answer = None,
      msg_player_name = None, msg_player_id = None\<rparr>"

definition open_state :: app_state where
  "open_state = initial_state\<lparr>isConnected := True, wsRef := Some OPEN\<rparr>"

definition final_whistle :: GameState where
  "final_whistle =
     \<lparr>game_id = ''sim_game_001'', quarter = 4, time_remaining = ''0:00'',
      home_team = ''Dallas Cowboys'', away_team = ''New York Giants'',
      home_score = 21, away_score = 17, status = ''in_progress''\<rparr>"

definition third_quarter :: GameState where
  "third_quarter =
     \<lparr>game_id = ''sim_game_001'', quarter = 3, time_remaining = ''7:30'',
      home_team = ''Dallas Cowboys'', away_team = ''New York Giants'',
      home_score = 14, away_score = 10, status = ''in_progress''\<rparr>"

definition tick_of :: "GameState \<Rightarrow> message" where
  "tick_of gs = blank_message\<lparr>msg_type := Some ''tick'', msg_game_state := Some gs\<rparr>"

definition heartbeat :: message where
  "heartbeat = blank_message\<lparr>msg_type := Some ''heartbeat''\<rparr>"

definition event_of :: "string \<Rightarrow> LiveEvent" where
  "event_of k =
     \<lparr>ev_id = k, ev_type = ''pass_completion'', ev_description = ''Pass complete'',
      ev_quarter = 3, ev_timestamp = ''2025-09-27T18:00:00''\<rparr>"

definition live_update_of :: "string \<Rightarrow> message" where
  "live_update_of k =
     blank_message\<lparr>msg_type := Some ''live_update'', msg_game_state := Some third_quarter,
       msg_event := Some (event_of k)\<rparr>"

definition forecast_of :: "string \<Rightarrow> real \<Rightarrow> Prediction" where
  "forecast_of k v =
     \<lparr>player_id = k, player_name = Some ''Player'', position = Some ''QB'',
      stat_predictions = Some [(''passing_yards'',
        \<lparr>predicted_value = Some v, confidence = Some 0.85, probability_over = Some 0.72,
         live_stats = Some 0\<rparr>)],
      overall_confidence = Some 0.8\<rparr>"

definition replay_inputs :: "(handler_env \<times> ws_data) list" where
  "replay_inputs =
     map (\<lambda>k. (env0, Json (ParsedObject (live_update_of k))))
       [''e1'', ''e1'', ''e2'', ''e3'', ''e2'', ''e4'', ''e5'', ''e6'']"

definition two_forecasts :: app_state where
  "two_forecasts =
     open_state\<lparr>predictions :=
       [\<lparr>prediction = forecast_of ''p1'' 250, explanation = None\<rparr>,
        \<lparr>prediction = forecast_of ''p2'' 80, explanation = None\<rparr>]\<rparr>"

definition update_for :: "string \<Rightarrow> real \<Rightarrow> message" where
  "update_for k v = (live_update_of ''e1'')\<lparr>msg_updated_prediction := Some (forecast_of k v)\<rparr>"

definition stat_only :: "string \<Rightarrow> real \<Rightarrow> (string \<times> StatProjection) list" where
  "stat_only k v =
     [(k, \<lparr>predicted_value = Some v, confidence = None, probability_over = None,
           live_stats = None\<rparr>)]"

definition record_of :: "string \<Rightarrow> real option \<Rightarrow> (string \<times> StatProjection) list \<Rightarrow> Prediction" where
  "record_of k c stats =
     \<lparr>player_id = k, player_name = None, position = None, stat_predictions = Some stats,
      overall_confidence = c\<rparr>"

definition home_scorer :: Prediction where
  "home_scorer = record_of ''h1'' None (stat_only ''touchdowns'' 4)"

definition away_loss :: Prediction where
  "away_loss = record_of ''a1'' None (stat_only ''rushing_yards'' (- 100))"




definition star :: Prediction where
  "star = record_of ''h3'' (Some 0.9) (stat_only ''touchdowns'' 2)"

definition overconfident :: StatProjection where
  "overconfident =
     \<lparr>predicted_value = Some 275, confidence = Some 1.4, probability_over = Some 1.4,
      live_stats = Some 0\<rparr>"

text \<open>The record the heuristic returns when it has no prediction record on either side.\<close>

definition even_odds :: EvaluationResult where
  "even_odds =
     \<lparr>winProbability = Some 50, expectedPointsHome = Some 0, expectedPointsAway = Some 0,
      expectedYardsHome = Some 0, expectedYardsAway = Some 0,
      avgPlayerConfidenceHome = Some 70, avgPlayerConfidenceAway = Some 70\<rparr>"

definition server_down :: "lineup_payload \<Rightarrow> server_outcome" where
  "server_down payload = ServerFailed"

definition fetch_rejects :: "string \<Rightarrow> fetch_outcome" where
  "fetch_rejects i = Rejected"

definition fetch_throws :: "string \<Rightarrow> fetch_outcome" where
  "fetch_throws i = Threw"

definition one_each :: play_state where
  "one_each =
     \<lparr>playHomeTeam = Some ''PHI'', playAwayTeam = Some ''DAL'',
      homeLineup = assignPlayerToPosition ''QB'' \<lparr>pl_id = ''h1'', pl_name = ''Home QB''\<rparr> emptyLineup,
      awayLineup = assignPlayerToPosition ''RB'' \<lparr>pl_id = ''a1'', pl_name = ''Away RB''\<rparr> emptyLineup,
      evaluationResult = None, evaluatingLineup = False\<rparr>"

section \<open>Lemmas about the stream handler\<close>

lemma onmessage_Malformed: "onmessage env st Malformed = (st, [console_error])"
  by (simp add: onmessage_def JSON_parse_def)

lemma onmessage_unknown:
  "msg_type m \<notin> {Some ''tick'', Some ''game_initialized'', Some ''live_update'',
       Some ''scenario_update'', Some ''cedar_answer''} \<Longrightarrow>
   onmessage env st (Json (ParsedObject m)) = (st, [console_log])"
  by (simp add: onmessage_def JSON_parse_def handle_message_def)

lemma onmessage_tick:
  "msg_type m = Some ''tick'' \<Longrightarrow>
   onmessage env st (Json (ParsedObject m)) =
     (case msg_game_state m of
        None \<Rightarrow> (st, [console_log])
      | Some gs \<Rightarrow>
          if quarter gs = 4 \<and> time_remaining gs = ''0:00''
          then (st, console_log #
                  (if wsRef st = Some OPEN then [socket_send (game_reset initialGameState)] else []))
          else (st\<lparr>gameState := Some gs\<rparr>, [console_log]))"
  by (auto simp add: onmessage_def JSON_parse_def handle_message_def handle_tick_def safeSend_def
      split: option.splits ready_state.splits)

lemma liveEvents_onmessage:
  "liveEvents (fst (onmessage env st d)) = step_events d (liveEvents st)"
  by (auto simp add: onmessage_def JSON_parse_def handle_message_def handle_tick_def
      handle_game_initialized_def handle_live_update_def handle_scenario_update_def
      handle_cedar_answer_def step_events_def Let_def
      split: option.splits ws_data.splits parsed.splits prod.splits)

lemma newEvent_id: "newEvent e = e"
  by (simp add: newEvent_def)

lemma list_ex_ev_id: "list_ex (\<lambda>e. ev_id e = k) evs = (k \<in> ev_id ` set evs)"
  by (auto simp add: list_ex_iff)

lemma distinct_map_take: "distinct (map f xs) \<Longrightarrow> distinct (map f (take n xs))"
  by (simp add: take_map [symmetric] distinct_take)

lemma addLiveEvent_ok:
  assumes "retained_ok prev"
  shows "retained_ok (addLiveEvent ne prev)"
proof (cases "ev_id ne \<in> ev_id ` set prev")
  case True
  then show ?thesis using assms by (simp add: addLiveEvent_def list_ex_ev_id)
next
  case False
  have d: "distinct (map ev_id (ne # prev))"
    using False assms by (simp add: retained_ok_def)
  have "distinct (map ev_id (take 5 (ne # prev)))"
    using d by (rule distinct_map_take)
  moreover have "length (take 5 (ne # prev)) \<le> 5" by simp
  ultimately show ?thesis
    using False unfolding retained_ok_def addLiveEvent_def list_ex_ev_id by presburger
qed

lemma addLiveEvent_subseq: "subseq (addLiveEvent ne prev) (ne # prev)"
proof (cases "list_ex (\<lambda>e. ev_id e = ev_id ne) prev")
  case True
  have "subseq prev (ne # prev)" by (rule subseq_Cons') simp
  then show ?thesis using True by (simp add: addLiveEvent_def)
next
  case False
  have "prefix (take 5 (ne # prev)) (ne # prev)" by (rule take_is_prefix)
  then have "subseq (take 5 (ne # prev)) (ne # prev)" by (rule prefix_imp_subseq)
  then show ?thesis using False unfolding addLiveEvent_def by presburger
qed

lemma step_events_ok: "retained_ok evs \<Longrightarrow> retained_ok (step_events d evs)"
  by (auto simp add: step_events_def addLiveEvent_ok split: ws_data.splits parsed.splits option.splits)

lemma run_events_ok: "retained_ok (liveEvents st) \<Longrightarrow> retained_ok (liveEvents (run st inputs))"
proof (induction inputs arbitrary: st)
  case Nil
  then show ?case by simp
next
  case (Cons a inputs)
  obtain env d where a: "a = (env, d)" by (cases a)
  have "retained_ok (liveEvents (fst (onmessage env st d)))"
    using Cons.prems by (simp add: liveEvents_onmessage step_events_ok)
  then show ?case using Cons.IH a by simp
qed

lemma step_events_subseq: "subseq (step_events d evs) (carried d @ evs)"
  using addLiveEvent_subseq
  by (auto simp add: step_events_def carried_def split: ws_data.splits parsed.splits option.splits)

lemma rev_carried: "rev (carried d) = carried d"
  by (auto simp add: carried_def split: ws_data.splits parsed.splits option.splits)

lemma run_events_subseq:
  "subseq (liveEvents (run st inputs)) (rev (arrived inputs) @ liveEvents st)"
proof (induction inputs arbitrary: st)
  case Nil
  then show ?case by (simp add: arrived_def)
next
  case (Cons a inputs)
  obtain env d where a: "a = (env, d)" by (cases a)
  let ?st1 = "fst (onmessage env st d)"
  have "subseq (liveEvents (run ?st1 inputs)) (rev (arrived inputs) @ liveEvents ?st1)"
    by (rule Cons.IH)
  moreover have "subseq (rev (arrived inputs) @ liveEvents ?st1)
      (rev (arrived inputs) @ (carried d @ liveEvents st))"
    unfolding liveEvents_onmessage
    by (rule list_emb_append_mono [OF subseq_order.order_refl step_events_subseq])
  ultimately have "subseq (liveEvents (run ?st1 inputs))
      (rev (arrived inputs) @ (carried d @ liveEvents st))"
    by (rule subseq_order.order_trans)
  moreover have "rev (arrived (a # inputs)) = rev (arrived inputs) @ carried d"
    by (simp add: a arrived_def rev_carried)
  ultimately show ?case using a by simp
qed

lemma findIndex_None: "findIndex P xs = None \<longleftrightarrow> (\<forall>x\<in>set xs. \<not> P x)"
  by (induction xs) auto

lemma findIndex_Some:
  "findIndex P xs = Some i \<Longrightarrow> i < length xs \<and> P (xs ! i) \<and> (\<forall>k<i. \<not> P (xs ! k))"
proof (induction xs arbitrary: i)
  case Nil
  then show ?case by simp
next
  case (Cons x xs)
  show ?case
  proof (cases "P x")
    case True
    with Cons.prems show ?thesis by simp
  next
    case False
    with Cons.prems obtain j where j: "findIndex P xs = Some j" "i = Suc j" by auto
    from Cons.IH [OF j(1)] have ih: "j < length xs" "P (xs ! j)" "\<forall>k<j. \<not> P (xs ! k)" by auto
    have "\<forall>k<Suc j. \<not> P ((x # xs) ! k)"
    proof (intro allI impI)
      fix k assume "k < Suc j"
      then show "\<not> P ((x # xs) ! k)" using False ih(3) by (cases k) auto
    qed
    with ih j show ?thesis by simp
  qed
qed

lemma predictions_live_update:
  "msg_type m = Some ''live_update'' \<Longrightarrow> msg_event m = Some ev \<Longrightarrow>
   msg_updated_prediction m = Some up \<Longrightarrow>
   predictions (fst (onmessage env st (Json (ParsedObject m)))) =
     replacePrediction up (msg_explanation m) (predictions st)"
  by (simp add: onmessage_def JSON_parse_def handle_message_def handle_live_update_def Let_def)

lemma replacePrediction_ids:
  "map (\<lambda>p. player_id (prediction p)) (replacePrediction up ex prev) =
   map (\<lambda>p. player_id (prediction p)) prev"
proof (cases "findIndex (\<lambda>p. player_id (prediction p) = player_id up) prev")
  case None
  then show ?thesis by (simp add: replacePrediction_def)
next
  case (Some i)
  from findIndex_Some [OF Some]
  have "i < length prev" "player_id (prediction (prev ! i)) = player_id up" by auto
  then show ?thesis
    using Some by (simp add: replacePrediction_def map_update list_update_same_conv)
qed

lemma liveEvents_live_update:
  "msg_type m = Some ''live_update'' \<Longrightarrow> msg_event m = Some e \<Longrightarrow>
   liveEvents (fst (onmessage env st (Json (ParsedObject m)))) = addLiveEvent e (liveEvents st)"
  by (simp add: liveEvents_onmessage step_events_def newEvent_id)

lemma run_replay_inputs:
  "liveEvents (run initial_state replay_inputs) = map event_of [''e6'', ''e5'', ''e4'', ''e3'', ''e2'']"
  by (simp add: replay_inputs_def initial_state_def onmessage_def JSON_parse_def handle_message_def
      handle_live_update_def addLiveEvent_def newEvent_def live_update_of_def blank_message_def
      event_of_def Let_def)

section \<open>Lemmas about the local heuristic\<close>

lemma or_num_zero: "or_num (predicted p k) 0 = stat_or_zero p k"
  by (simp add: or_num_def stat_or_zero_def split: option.splits)

lemma or_num_conf: "or_num (overall_confidence p) 0.7 = player_confidence p"
  by (simp add: or_num_def player_confidence_def split: option.splits)

lemma available_Nil: "available [] = []"
  by (simp add: available_def map_filter_simps)

lemma available_Cons:
  "available (p0 # ps) = (case p0 of None \<Rightarrow> available ps | Some p \<Rightarrow> p # available ps)"
  by (simp add: available_def map_filter_simps split: option.splits)


lemma foldl_summarize_step:
  "foldl summarize_step acc preds =
     \<lparr>confidenceSum = confidenceSum acc + sum_list (map player_confidence (available preds)),
      count = count acc + length (available preds),
      acc_points = acc_points acc + sum_list (map player_points (available preds)),
      acc_yards = acc_yards acc + sum_list (map player_yards (available preds))\<rparr>"
proof (induction preds arbitrary: acc)
  case Nil
  then show ?case by (simp add: available_Nil)
next
  case (Cons p0 preds)
  show ?case
  proof (cases p0)
    case None
    then show ?thesis using Cons.IH [of acc]
      by (simp add: summarize_step_def available_Cons)
  next
    case (Some p)
    then show ?thesis
      using Cons.IH [of "summarize_step acc (Some p)"]
      by (simp add: summarize_step_def available_Cons or_num_zero or_num_conf
          player_points_def player_yards_def Let_def algebra_simps)
  qed
qed

lemma summarize_eq:
  "summarize preds =
     \<lparr>avgConfidence = side_confidence preds, points = side_points preds, yards = side_yards preds\<rparr>"
  by (simp add: summarize_def foldl_summarize_step side_confidence_def side_points_def
      side_yards_def Let_def)

lemma Math_round_bounds:
  "real_of_int (Math_round y) \<le> y + 1 / 2 \<and> y - 1 / 2 < real_of_int (Math_round y)"
  unfolding Math_round_def by linarith

lemma Math_round_nearest: "\<bar>real_of_int (Math_round y) - y\<bar> \<le> \<bar>real_of_int n - y\<bar>"
proof -
  define m where "m = Math_round y"
  have b: "real_of_int m \<le> y + 1 / 2" "y - 1 / 2 < real_of_int m"
    using Math_round_bounds [of y] by (simp_all add: m_def)
  consider "n < m" | "n = m" | "m < n" by linarith
  then have "\<bar>real_of_int m - y\<bar> \<le> \<bar>real_of_int n - y\<bar>"
  proof cases
    case 1
    then have "n + 1 \<le> m" by simp
    then have "real_of_int n + 1 \<le> real_of_int m" by linarith
    with b show ?thesis by linarith
  next
    case 2
    then show ?thesis by simp
  next
    case 3
    then have "m + 1 \<le> n" by simp
    then have "real_of_int m + 1 \<le> real_of_int n" by linarith
    with b show ?thesis by linarith
  qed
  then show ?thesis by (simp add: m_def)
qed

lemma heuristic_wp:
  "winProbability (heuristic H A) =
     Some (report (homeStrength (summarize H) (summarize A) - awayStrength (summarize H) (summarize A)))"
  by (simp add: heuristic_def report_def Let_def)




lemma sigmoid_zero: "sigmoid 0 = 1 / 2"
  by (simp add: sigmoid_def)


lemma heuristic_defaults:
  assumes "available H = []" "available A = []"
  shows "heuristic H A =
     \<lparr>winProbability = Some 50, expectedPointsHome = Some 0, expectedPointsAway = Some 0,
      expectedYardsHome = Some 0, expectedYardsAway = Some 0,
      avgPlayerConfidenceHome = Some 70, avgPlayerConfidenceAway = Some 70\<rparr>"
proof -
  have h: "summarize H = \<lparr>avgConfidence = 0.7, points = 0, yards = 0\<rparr>"
    using assms(1) by (simp add: summarize_eq side_confidence_def side_points_def side_yards_def)
  have a: "summarize A = \<lparr>avgConfidence = 0.7, points = 0, yards = 0\<rparr>"
    using assms(2) by (simp add: summarize_eq side_confidence_def side_points_def side_yards_def)
  have d: "homeStrength (summarize H) (summarize A) - awayStrength (summarize H) (summarize A) = 0"
    by (simp add: h a homeStrength_def awayStrength_def)
  have w: "max 0.02 (min 0.98 (sigmoid 0)) * 1000 = (500::real)"
    by (simp add: sigmoid_zero)
  show ?thesis
    unfolding heuristic_def Let_def d w by (simp add: h a Math_round_def)
qed

lemma lineupIds_emptyLineup: "lineupIds emptyLineup = []"
  by (simp add: lineupIds_def emptyLineup_def PLAY_POSITIONS_def map_filter_simps)

lemma sigmoid_logistic: "sigmoid d = logistic (6 * d)"
  by (simp add: sigmoid_def logistic_def)

lemma report_eq: "report d = percent1 (clamp 0.02 0.98 (logistic (6 * d)))"
  by (simp add: report_def percent1_def clamp_def Math_round_def sigmoid_logistic)

lemma strengths_eq:
  "homeStrength (summarize H) (summarize A) =
     guarded_strength (side_confidence H) (side_points H) (side_points A)"
  "awayStrength (summarize H) (summarize A) =
     guarded_strength (side_confidence A) (side_points A) (side_points H)"
  by (simp_all add: homeStrength_def awayStrength_def guarded_strength_def summarize_eq)

lemma guarded_is_spec: "0 \<le> opp \<Longrightarrow> guarded_strength avg own opp = spec_strength avg own opp"
  by (simp add: guarded_strength_def spec_strength_def max_def)


lemma predicted_record_of:
  "predicted (record_of k c (stat_only s v)) s' = (if s' = s then Some v else None)"
  by (simp add: predicted_def record_of_def stat_only_def)

lemma sigmoid_high: "8 \<le> d \<Longrightarrow> 0.98 \<le> sigmoid d"
proof -
  assume d: "8 \<le> d"
  have "1 + 6 * d \<le> exp (6 * d)" by (rule exp_ge_add_one_self)
  then have big: "49 \<le> exp (6 * d)" using d by linarith
  have "exp (- 6 * d) = 1 / exp (6 * d)" by (simp add: exp_minus field_simps)
  also have "\<dots> \<le> 1 / 49" using big by (simp add: field_simps)
  finally have "1 + exp (- 6 * d) \<le> 50 / 49" by simp
  moreover have "0 < 1 + exp (- 6 * d)" by (simp add: add_pos_pos)
  ultimately have "1 / (50 / 49) \<le> 1 / (1 + exp (- 6 * d))"
    by (intro divide_left_mono) simp_all
  then show ?thesis by (simp add: sigmoid_def)
qed

lemma logistic_low: "z \<le> - 48 \<Longrightarrow> logistic z \<le> 0.02"
proof -
  assume z: "z \<le> - 48"
  have "1 + (- z) \<le> exp (- z)" by (rule exp_ge_add_one_self)
  then have "50 \<le> 1 + exp (- z)" using z by linarith
  then have "1 / (1 + exp (- z)) \<le> 1 / 50"
    by (intro divide_left_mono) simp_all
  then show ?thesis by (simp add: logistic_def)
qed

lemma report_high: "8 \<le> d \<Longrightarrow> report d = 98"
proof -
  assume "8 \<le> d"
  then have "0.98 \<le> sigmoid d" by (rule sigmoid_high)
  then have "max 0.02 (min 0.98 (sigmoid d)) = 0.98" by simp
  then show ?thesis by (simp add: report_def Math_round_def)
qed

lemma percent1_low: "z \<le> - 48 \<Longrightarrow> percent1 (clamp 0.02 0.98 (logistic z)) = 2"
proof -
  assume "z \<le> - 48"
  then have "logistic z \<le> 0.02" by (rule logistic_low)
  then have c: "clamp 0.02 0.98 (logistic z) = 0.02" by (simp add: clamp_def)
  show ?thesis unfolding percent1_def c by simp
qed






lemma fetch_all_failed:
  assumes "\<forall>i\<in>set ids. api i = Rejected \<or> api i = Threw"
  shows "fetch_all api ids = Inl TypeError
         \<or> (\<exists>preds. fetch_all api ids = Inr preds \<and> available preds = [])"
proof (cases "list_ex (\<lambda>i. api i = Threw) ids")
  case True
  then show ?thesis by (simp add: fetch_all_def)
next
  case False
  then have "\<forall>i\<in>set ids. api i = Rejected" using assms by (auto simp add: list_ex_iff)
  then have "available (map (\<lambda>i. case api i of Resolved v \<Rightarrow> v | _ \<Rightarrow> None) ids) = []"
    by (induction ids) (simp_all add: available_Nil available_Cons)
  then show ?thesis using False by (simp add: fetch_all_def)
qed

lemma neutral_fallback_range:
  assumes "0 \<le> r" and "r < 1"
  shows "\<exists>w. winProbability (neutral_fallback r) = Some w \<and> 42.5 \<le> w \<and> w \<le> 57.5"
proof -
  define x where "x = (0.5 + (r - 0.5) * 0.15) * 1000"
  have "x = 425 + 150 * r" unfolding x_def by (simp add: field_simps)
  then have x: "425 \<le> x" "x < 575" using assms by simp_all
  have "425 \<le> Math_round x"
    unfolding Math_round_def using x(1) by (simp add: le_floor_iff)
  moreover have "Math_round x \<le> 575"
    unfolding Math_round_def using x(2) by (simp add: floor_le_iff)
  ultimately have "425 \<le> real_of_int (Math_round x)" "real_of_int (Math_round x) \<le> 575"
    by linarith+
  then have "42.5 \<le> real_of_int (Math_round x) / 10" "real_of_int (Math_round x) / 10 \<le> 57.5"
    by simp_all
  moreover have "winProbability (neutral_fallback r) = Some (real_of_int (Math_round x) / 10)"
    unfolding neutral_fallback_def x_def by simp
  ultimately show ?thesis by blast
qed

lemma local_all_failed:
  assumes "\<forall>i\<in>set (lineupIds homeObj @ lineupIds awayObj). api i = Rejected \<or> api i = Threw"
  shows "localEvaluateLineup api r homeObj awayObj = neutral_fallback r
         \<or> winProbability (localEvaluateLineup api r homeObj awayObj) = Some 50"
proof -
  have h: "\<forall>i\<in>set (lineupIds homeObj). api i = Rejected \<or> api i = Threw"
    and a: "\<forall>i\<in>set (lineupIds awayObj). api i = Rejected \<or> api i = Threw"
    using assms by auto
  from fetch_all_failed [OF h] fetch_all_failed [OF a] show ?thesis
    by (auto simp add: localEvaluateLineup_def localEvaluateLineup_try_def heuristic_defaults)
qed

lemma fetch_all_rejected:
  assumes "\<forall>i\<in>set ids. api i = Rejected"
  shows "\<exists>preds. fetch_all api ids = Inr preds \<and> available preds = []"
proof -
  have no_throw: "\<not> list_ex (\<lambda>i. api i = Threw) ids"
    using assms by (auto simp add: list_ex_iff)
  have "available (map (\<lambda>i. case api i of Resolved v \<Rightarrow> v | _ \<Rightarrow> None) ids) = []"
    using assms by (induction ids) (simp_all add: available_Nil available_Cons)
  then show ?thesis using no_throw by (simp add: fetch_all_def)
qed

lemma local_all_rejected:
  assumes "\<forall>i\<in>set (lineupIds homeObj @ lineupIds awayObj). api i = Rejected"
  shows "localEvaluateLineup api r homeObj awayObj = even_odds"
proof -
  have "\<forall>i\<in>set (lineupIds homeObj). api i = Rejected" using assms by simp
  then obtain H where H: "fetch_all api (lineupIds homeObj) = Inr H" "available H = []"
    using fetch_all_rejected by blast
  have "\<forall>i\<in>set (lineupIds awayObj). api i = Rejected" using assms by simp
  then obtain A where A: "fetch_all api (lineupIds awayObj) = Inr A" "available A = []"
    using fetch_all_rejected by blast
  have "localEvaluateLineup api r homeObj awayObj = heuristic H A"
    by (simp add: localEvaluateLineup_def localEvaluateLineup_try_def H(1) A(1))
  also have "heuristic H A = even_odds"
    unfolding even_odds_def using H(2) A(2) by (rule heuristic_defaults)
  finally show ?thesis .
qed

lemma lineupIds_one_each:
  "lineupIds (homeLineup one_each) = [''h1'']" "lineupIds (awayLineup one_each) = [''a1'']"
  by (simp_all add: one_each_def assignPlayerToPosition_def emptyLineup_def PLAY_POSITIONS_def
      lineupIds_def map_filter_simps)

text \<open>Assigning a player to an empty position of a lineup inserts the record fetched
  for that player into the side's predictions, at the place of the position.\<close>

lemma lineupIds_Cons:
  "lineupIds ((k, v) # rest) = (case v of None \<Rightarrow> lineupIds rest | Some pl \<Rightarrow> pl_id pl # lineupIds rest)"
  by (simp add: lineupIds_def map_filter_simps split: option.splits)

lemma lineupIds_assign:
  "map_of obj pos = Some None \<Longrightarrow>
   \<exists>xs ys. lineupIds obj = xs @ ys
     \<and> lineupIds (assignPlayerToPosition pos player obj) = xs @ pl_id player # ys"
proof (induction obj)
  case Nil
  then show ?case by simp
next
  case (Cons kv obj)
  obtain k v where kv: "kv = (k, v)" by (cases kv)
  show ?case
  proof (cases "k = pos")
    case True
    then have "v = None" using Cons.prems kv by simp
    then have "lineupIds (kv # obj) = [] @ lineupIds obj
      \<and> lineupIds (assignPlayerToPosition pos player (kv # obj)) = [] @ pl_id player # lineupIds obj"
      using True kv by (simp add: lineupIds_Cons assignPlayerToPosition_def)
    then show ?thesis by blast
  next
    case False
    then have "map_of obj pos = Some None" using Cons.prems kv by simp
    from Cons.IH [OF this] obtain xs ys where
      ih: "lineupIds obj = xs @ ys"
        "lineupIds (assignPlayerToPosition pos player obj) = xs @ pl_id player # ys"
      by blast
    have upd: "assignPlayerToPosition pos player (kv # obj) =
        kv # assignPlayerToPosition pos player obj"
      using False kv by (simp add: assignPlayerToPosition_def)
    show ?thesis
    proof (cases v)
      case None
      then have "lineupIds (kv # obj) = xs @ ys
        \<and> lineupIds (assignPlayerToPosition pos player (kv # obj)) = xs @ pl_id player # ys"
        using ih kv upd by (simp add: lineupIds_Cons)
      then show ?thesis by blast
    next
      case (Some q)
      then have "lineupIds (kv # obj) = (pl_id q # xs) @ ys
        \<and> lineupIds (assignPlayerToPosition pos player (kv # obj)) = (pl_id q # xs) @ pl_id player # ys"
        using ih kv upd by (simp add: lineupIds_Cons)
      then show ?thesis by blast
    qed
  qed
qed

lemma fetch_all_Inr:
  "fetch_all api ids = Inr preds \<longleftrightarrow>
     (\<forall>i\<in>set ids. api i \<noteq> Threw)
     \<and> preds = map (\<lambda>i. case api i of Resolved v \<Rightarrow> v | _ \<Rightarrow> None) ids"
  by (auto simp add: fetch_all_def list_ex_iff)

lemma home_predictions_after_assign:
  assumes "map_of homeObj pos = Some None"
    and "fetch_all api (lineupIds homeObj) = Inr H"
    and "api (pl_id player) = Resolved (Some p)"
  shows "\<exists>xs ys. H = xs @ ys
     \<and> fetch_all api (lineupIds (assignPlayerToPosition pos player homeObj)) = Inr (xs @ Some p # ys)"
proof -
  let ?f = "\<lambda>i. case api i of Resolved v \<Rightarrow> v | _ \<Rightarrow> None"
  from lineupIds_assign [OF assms(1), of player] obtain ids1 ids2 where
    ids: "lineupIds homeObj = ids1 @ ids2"
      "lineupIds (assignPlayerToPosition pos player homeObj) = ids1 @ pl_id player # ids2"
    by blast
  from assms(2) have ok: "\<forall>i\<in>set (ids1 @ ids2). api i \<noteq> Threw" and H: "H = map ?f (ids1 @ ids2)"
    by (simp_all add: fetch_all_Inr ids(1))
  have "\<forall>i\<in>set (ids1 @ pl_id player # ids2). api i \<noteq> Threw"
    using ok assms(3) by auto
  then have "fetch_all api (ids1 @ pl_id player # ids2) = Inr (map ?f ids1 @ Some p # map ?f ids2)"
    using assms(3) by (simp add: fetch_all_Inr)
  moreover have "H = map ?f ids1 @ map ?f ids2" using H by simp
  ultimately show ?thesis unfolding ids(2) by blast
qed

section \<open>Claims about the stream handler\<close>

text \<open>
  C9. A payload that does not parse is logged and dropped: the state is the one before,
  the only effect is the logged error (nothing is sent, nothing is closed), and the
  handler returns. A parsed object whose type is none of \<open>tick\<close>, \<open>game_initialized\<close>,
  \<open>live_update\<close>, \<open>scenario_update\<close> and \<open>cedar_answer\<close> leaves the state unchanged, and so
  do parsed values that are not objects.
\<close>

theorem unparsed_and_unknown_messages_dropped:
  "onmessage env st Malformed = (st, [console_error])
   \<and> (msg_type m \<notin> {Some ''tick'', Some ''game_initialized'', Some ''live_update'',
          Some ''scenario_update'', Some ''cedar_answer''}
        \<longrightarrow> onmessage env st (Json (ParsedObject m)) = (st, [console_log]))
   \<and> onmessage env st (Json ParsedOther) = (st, [console_log])
   \<and> onmessage env st (Json ParsedNull) = (st, [console_error])"
proof -
  have "onmessage env st (Json ParsedOther) = (st, [console_log])"
    by (simp add: onmessage_def JSON_parse_def handle_message_def)
  moreover have "onmessage env st (Json ParsedNull) = (st, [console_error])"
    by (simp add: onmessage_def JSON_parse_def handle_message_def)
  ultimately show ?thesis
    using onmessage_Malformed [of env st] onmessage_unknown [of m env st] by blast
qed

theorem unparsed_and_unknown_messages_dropped_witness:
  "onmessage env0 open_state Malformed = (open_state, [console_error])
   \<and> onmessage env0 open_state (Json (ParsedObject heartbeat)) = (open_state, [console_log])"
  using unparsed_and_unknown_messages_dropped [of env0 open_state heartbeat]
  by (simp add: heartbeat_def blank_message_def)

text \<open>
  C1, as the handler has it. A tick whose \<open>game_state\<close> has quarter 4 and time remaining
  \<open>0:00\<close> leaves the state as it was and, when the socket is open, sends one
  \<open>game_reset\<close>; its data is the constant \<open>initialGameState\<close>, which has quarter 1 and
  both scores 0. A tick with any other \<open>game_state\<close> replaces \<open>gameState\<close> by it, and a
  tick that carries no \<open>game_state\<close> changes nothing.
\<close>

theorem tick_applied_or_reset_requested:
  assumes "msg_type m = Some ''tick''"
  shows "(msg_game_state m = Some gs \<and> quarter gs = 4 \<and> time_remaining gs = ''0:00'' \<longrightarrow>
            onmessage env st (Json (ParsedObject m)) =
              (st, console_log #
                 (if wsRef st = Some OPEN then [socket_send (game_reset initialGameState)] else [])))
         \<and> (msg_game_state m = Some gs \<and> \<not> (quarter gs = 4 \<and> time_remaining gs = ''0:00'') \<longrightarrow>
            onmessage env st (Json (ParsedObject m)) = (st\<lparr>gameState := Some gs\<rparr>, [console_log]))
         \<and> (msg_game_state m = None \<longrightarrow>
            onmessage env st (Json (ParsedObject m)) = (st, [console_log]))
         \<and> quarter initialGameState = 1 \<and> home_score initialGameState = 0
         \<and> away_score initialGameState = 0"
  using onmessage_tick [OF assms, of env st]
  by (auto simp add: initialGameState_def)

theorem tick_applied_or_reset_requested_witness:
  "onmessage env0 open_state (Json (ParsedObject (tick_of final_whistle))) =
     (open_state, [console_log, socket_send (game_reset initialGameState)])
   \<and> onmessage env0 open_state (Json (ParsedObject (tick_of third_quarter))) =
     (open_state\<lparr>gameState := Some third_quarter\<rparr>, [console_log])
   \<and> onmessage env0 open_state (Json (ParsedObject (blank_message\<lparr>msg_type := Some ''tick''\<rparr>))) =
     (open_state, [console_log])"
  using tick_applied_or_reset_requested [of "tick_of final_whistle" final_whistle env0 open_state]
    tick_applied_or_reset_requested [of "tick_of third_quarter" third_quarter env0 open_state]
    tick_applied_or_reset_requested [of "blank_message\<lparr>msg_type := Some ''tick''\<rparr>" third_quarter
      env0 open_state]
  by (simp add: tick_of_def blank_message_def final_whistle_def third_quarter_def open_state_def)

text \<open>
  C1, as stated, fails: for a final tick of a game between two other teams the reset that
  is sent names the initial teams, not the teams of the incoming state.
\<close>

theorem reset_keeps_incoming_teams_counterexample:
  "onmessage env0 open_state (Json (ParsedObject (tick_of final_whistle))) =
     (open_state, [console_log, socket_send (game_reset initialGameState)])
   \<and> home_team initialGameState \<noteq> home_team final_whistle
   \<and> away_team initialGameState \<noteq> away_team final_whistle"
  by (simp add: onmessage_def JSON_parse_def handle_message_def handle_tick_def safeSend_def
      tick_of_def blank_message_def final_whistle_def open_state_def initialGameState_def)

text \<open>
  C6. Whatever payloads arrive, in whatever order, the retained live-event list never holds
  two events with one identifier and never more than 5 events, and it is ordered newest
  first: it is a subsequence of the arrived events in reverse arrival order. A
  \<open>live_update\<close> whose event identifier is already retained leaves the list unchanged;
  one whose identifier is new puts its event at the head and keeps the first 5.
\<close>

theorem live_events_deduplicated:
  "distinct (map ev_id (liveEvents (run initial_state inputs)))
   \<and> length (liveEvents (run initial_state inputs)) \<le> 5
   \<and> subseq (liveEvents (run initial_state inputs)) (rev (arrived inputs))
   \<and> (msg_type m = Some ''live_update'' \<and> msg_event m = Some e
        \<and> ev_id e \<in> ev_id ` set (liveEvents st)
       \<longrightarrow> liveEvents (fst (onmessage env st (Json (ParsedObject m)))) = liveEvents st)
   \<and> (msg_type m = Some ''live_update'' \<and> msg_event m = Some e
        \<and> ev_id e \<notin> ev_id ` set (liveEvents st)
       \<longrightarrow> liveEvents (fst (onmessage env st (Json (ParsedObject m)))) = take 5 (e # liveEvents st))"
proof -
  have "retained_ok (liveEvents initial_state)"
    by (simp add: retained_ok_def initial_state_def)
  then have ok: "retained_ok (liveEvents (run initial_state inputs))"
    by (rule run_events_ok)
  have "subseq (liveEvents (run initial_state inputs)) (rev (arrived inputs) @ liveEvents initial_state)"
    by (rule run_events_subseq)
  then have sub: "subseq (liveEvents (run initial_state inputs)) (rev (arrived inputs))"
    by (simp add: initial_state_def)
  have dup: "msg_type m = Some ''live_update'' \<and> msg_event m = Some e
        \<and> ev_id e \<in> ev_id ` set (liveEvents st)
       \<longrightarrow> liveEvents (fst (onmessage env st (Json (ParsedObject m)))) = liveEvents st"
    by (simp add: liveEvents_live_update addLiveEvent_def list_ex_ev_id)
  have fresh: "msg_type m = Some ''live_update'' \<and> msg_event m = Some e
        \<and> ev_id e \<notin> ev_id ` set (liveEvents st)
       \<longrightarrow> liveEvents (fst (onmessage env st (Json (ParsedObject m)))) = take 5 (e # liveEvents st)"
    by (simp add: liveEvents_live_update addLiveEvent_def list_ex_ev_id del: take_Suc_Cons)
  show ?thesis
    using ok sub dup fresh unfolding retained_ok_def by blast
qed

theorem live_events_deduplicated_witness:
  "liveEvents (run initial_state replay_inputs) = map event_of [''e6'', ''e5'', ''e4'', ''e3'', ''e2'']
   \<and> distinct (map ev_id (liveEvents (run initial_state replay_inputs)))
   \<and> length (liveEvents (run initial_state replay_inputs)) \<le> 5
   \<and> subseq (liveEvents (run initial_state replay_inputs)) (rev (arrived replay_inputs))
   \<and> liveEvents (fst (onmessage env0 (run initial_state replay_inputs)
        (Json (ParsedObject (live_update_of ''e3''))))) = liveEvents (run initial_state replay_inputs)
   \<and> liveEvents (fst (onmessage env0 (run initial_state replay_inputs)
        (Json (ParsedObject (live_update_of ''e7''))))) =
       map event_of [''e7'', ''e6'', ''e5'', ''e4'', ''e3'']"
proof -
  note inst = live_events_deduplicated [of replay_inputs _ _ "run initial_state replay_inputs" env0]
  have a: "msg_type (live_update_of k) = Some ''live_update''
      \<and> msg_event (live_update_of k) = Some (event_of k)" for k
    by (simp add: live_update_of_def blank_message_def)
  have ids: "ev_id ` set (liveEvents (run initial_state replay_inputs))
      = {''e6'', ''e5'', ''e4'', ''e3'', ''e2''}"
    by (simp add: run_replay_inputs event_of_def)
  have "ev_id (event_of ''e3'') \<in> ev_id ` set (liveEvents (run initial_state replay_inputs))"
    unfolding ids by (simp add: event_of_def)
  moreover have "ev_id (event_of ''e7'') \<notin> ev_id ` set (liveEvents (run initial_state replay_inputs))"
    unfolding ids by (simp add: event_of_def)
  ultimately show ?thesis
    using inst [of "live_update_of ''e3''" "event_of ''e3''"]
      inst [of "live_update_of ''e7''" "event_of ''e7''"] a run_replay_inputs
    by simp
qed

text \<open>
  C7. A \<open>live_update\<close> that carries an \<open>updated_prediction\<close> for player P replaces the
  first record whose player identifier is P by the new prediction and the message's
  explanation, at the same index; every other index keeps its record, so the sequence of
  player identifiers is the one before. When no record has P's identifier the forecast
  list is unchanged.
\<close>

theorem updated_prediction_replaces_in_place:
  assumes "msg_type m = Some ''live_update''" and "msg_event m = Some ev"
    and "msg_updated_prediction m = Some up"
  shows "map (\<lambda>p. player_id (prediction p))
           (predictions (fst (onmessage env st (Json (ParsedObject m))))) =
         map (\<lambda>p. player_id (prediction p)) (predictions st)
       \<and> (player_id up \<notin> (\<lambda>p. player_id (prediction p)) ` set (predictions st)
           \<longrightarrow> predictions (fst (onmessage env st (Json (ParsedObject m)))) = predictions st)
       \<and> (player_id up \<in> (\<lambda>p. player_id (prediction p)) ` set (predictions st)
           \<longrightarrow> (\<exists>i<length (predictions st).
                  player_id (prediction (predictions st ! i)) = player_id up
                  \<and> (\<forall>k<i. player_id (prediction (predictions st ! k)) \<noteq> player_id up)
                  \<and> predictions (fst (onmessage env st (Json (ParsedObject m)))) =
                      (predictions st)[i := \<lparr>prediction = up, explanation = msg_explanation m\<rparr>]))"
proof -
  let ?P = "\<lambda>p. player_id (prediction p) = player_id up"
  let ?ps = "predictions st"
  have eq: "predictions (fst (onmessage env st (Json (ParsedObject m)))) =
      replacePrediction up (msg_explanation m) ?ps"
    using assms by (rule predictions_live_update)
  have absent: "player_id up \<notin> (\<lambda>p. player_id (prediction p)) ` set ?ps
      \<longrightarrow> replacePrediction up (msg_explanation m) ?ps = ?ps"
  proof
    assume "player_id up \<notin> (\<lambda>p. player_id (prediction p)) ` set ?ps"
    then have "\<forall>x\<in>set ?ps. \<not> ?P x" by (metis (mono_tags, lifting) image_eqI)
    then have "findIndex ?P ?ps = None" by (simp add: findIndex_None)
    then show "replacePrediction up (msg_explanation m) ?ps = ?ps"
      by (simp add: replacePrediction_def)
  qed
  have present: "player_id up \<in> (\<lambda>p. player_id (prediction p)) ` set ?ps
      \<longrightarrow> (\<exists>i<length ?ps. ?P (?ps ! i) \<and> (\<forall>k<i. \<not> ?P (?ps ! k))
            \<and> replacePrediction up (msg_explanation m) ?ps =
                ?ps[i := \<lparr>prediction = up, explanation = msg_explanation m\<rparr>])"
  proof
    assume "player_id up \<in> (\<lambda>p. player_id (prediction p)) ` set ?ps"
    then have "\<not> (\<forall>x\<in>set ?ps. \<not> ?P x)" by auto
    then have "findIndex ?P ?ps \<noteq> None" by (simp add: findIndex_None)
    then obtain i where i: "findIndex ?P ?ps = Some i" by auto
    from findIndex_Some [OF i]
    have "i < length ?ps" "?P (?ps ! i)" "\<forall>k<i. \<not> ?P (?ps ! k)" by auto
    moreover have "replacePrediction up (msg_explanation m) ?ps =
        ?ps[i := \<lparr>prediction = up, explanation = msg_explanation m\<rparr>]"
      using i by (simp add: replacePrediction_def)
    ultimately show "\<exists>i<length ?ps. ?P (?ps ! i) \<and> (\<forall>k<i. \<not> ?P (?ps ! k))
            \<and> replacePrediction up (msg_explanation m) ?ps =
                ?ps[i := \<lparr>prediction = up, explanation = msg_explanation m\<rparr>]"
      by blast
  qed
  show ?thesis
    unfolding eq using replacePrediction_ids [of up "msg_explanation m" ?ps] absent present
    by blast
qed

theorem updated_prediction_replaces_in_place_witness:
  "predictions (fst (onmessage env0 two_forecasts (Json (ParsedObject (update_for ''p2'' 95))))) =
     [\<lparr>prediction = forecast_of ''p1'' 250, explanation = None\<rparr>,
      \<lparr>prediction = forecast_of ''p2'' 95, explanation = None\<rparr>]
   \<and> predictions (fst (onmessage env0 two_forecasts (Json (ParsedObject (update_for ''p9'' 95))))) =
     predictions two_forecasts"
proof -
  have h: "msg_type (update_for k v) = Some ''live_update''"
    "msg_event (update_for k v) = Some (event_of ''e1'')"
    "msg_updated_prediction (update_for k v) = Some (forecast_of k v)"
    "msg_explanation (update_for k v) = None" for k v
    by (simp_all add: update_for_def live_update_of_def blank_message_def)
  have ps: "predictions two_forecasts =
     [\<lparr>prediction = forecast_of ''p1'' 250, explanation = None\<rparr>,
      \<lparr>prediction = forecast_of ''p2'' 80, explanation = None\<rparr>]"
    by (simp add: two_forecasts_def)
  have ids: "player_id (forecast_of k v) = k" for k v
    by (simp add: forecast_of_def)
  from updated_prediction_replaces_in_place [of "update_for ''p9'' 95" "event_of ''e1''"
      "forecast_of ''p9'' 95" env0 two_forecasts, OF h(1) h(2) h(3)]
  have unknown: "predictions (fst (onmessage env0 two_forecasts
      (Json (ParsedObject (update_for ''p9'' 95))))) = predictions two_forecasts"
    by (simp add: ps ids)
  have replaced: "predictions (fst (onmessage env0 two_forecasts
      (Json (ParsedObject (update_for ''p2'' 95))))) =
     [\<lparr>prediction = forecast_of ''p1'' 250, explanation = None\<rparr>,
      \<lparr>prediction = forecast_of ''p2'' 95, explanation = None\<rparr>]"
    by (simp add: predictions_live_update [OF h(1) h(2) h(3)] h(4) replacePrediction_def ps ids)
  show ?thesis using replaced unknown by simp
qed

section \<open>Claims about the lineup evaluator\<close>

text \<open>
  C3. A side's points are the sum, over the records obtained for its assigned players, of
  6 times the predicted touchdowns plus 0.02 times the predicted passing, rushing and
  receiving yards, an absent category counting 0; its yards are the sum of the three
  yardage categories over the same records; the reported yard totals are these sums
  rounded to a nearest integer.
\<close>

theorem points_and_yards_summed:
  "points (summarize preds) = sum_list (map player_points (available preds))
   \<and> yards (summarize preds) = sum_list (map player_yards (available preds))
   \<and> expectedYardsHome (heuristic H A) = Some (real_of_int (Math_round (side_yards H)))
   \<and> expectedYardsAway (heuristic H A) = Some (real_of_int (Math_round (side_yards A)))
   \<and> (\<forall>n. \<bar>real_of_int (Math_round y) - y\<bar> \<le> \<bar>real_of_int n - y\<bar>)"
  by (simp add: summarize_eq side_points_def side_yards_def heuristic_def Let_def
      Math_round_nearest)

text \<open>
  C10. With every position of both lineups empty the local evaluation reports a win
  probability of 50.0, expected points and yards of 0 for both sides and an average
  confidence of 70.0 for both, whatever the fetch function and the random source are.
\<close>

theorem no_players_even_odds:
  "localEvaluateLineup api r emptyLineup emptyLineup =
     \<lparr>winProbability = Some 50, expectedPointsHome = Some 0, expectedPointsAway = Some 0,
      expectedYardsHome = Some 0, expectedYardsAway = Some 0,
      avgPlayerConfidenceHome = Some 70, avgPlayerConfidenceAway = Some 70\<rparr>"
proof -
  have ids: "lineupIds emptyLineup = []"
    by (rule lineupIds_emptyLineup)
  have "fetch_all api [] = Inr []"
    by (simp add: fetch_all_def)
  then have "localEvaluateLineup_try api emptyLineup emptyLineup = Inr (heuristic [] [])"
    by (simp add: localEvaluateLineup_try_def ids)
  then have "localEvaluateLineup api r emptyLineup emptyLineup = heuristic [] []"
    by (simp add: localEvaluateLineup_def)
  also have "heuristic [] [] =
     \<lparr>winProbability = Some 50, expectedPointsHome = Some 0, expectedPointsAway = Some 0,
      expectedYardsHome = Some 0, expectedYardsAway = Some 0,
      avgPlayerConfidenceHome = Some 70, avgPlayerConfidenceAway = Some 70\<rparr>"
    by (rule heuristic_defaults) (simp_all add: available_Nil)
  finally show ?thesis .
qed

text \<open>
  C2, as the evaluator has it. A side's average confidence is the mean, over the records
  obtained for its assigned players, of \<open>overall_confidence\<close> (0.7 for a record where it
  is absent or zero), and 0.7 when no record was obtained. Its strength is 0.6 times that
  average plus 0.4 times its points divided by the larger of 1 and the opponent's points
  plus 1. The reported win probability is the logistic function of 6 times the strength
  difference, clamped to [0.02, 0.98], as a percentage rounded to one decimal place. When
  both point totals are non-negative the divisor is the opponent's points plus 1, as the
  specification writes it.
\<close>

theorem win_probability_formula:
  "winProbability (heuristic H A) =
     Some (percent1 (clamp 0.02 0.98 (logistic (6 *
       (guarded_strength (side_confidence H) (side_points H) (side_points A)
        - guarded_strength (side_confidence A) (side_points A) (side_points H))))))
   \<and> (0 \<le> side_points H \<and> 0 \<le> side_points A \<longrightarrow>
       winProbability (heuristic H A) =
         Some (percent1 (clamp 0.02 0.98 (logistic (6 *
           (spec_strength (side_confidence H) (side_points H) (side_points A)
            - spec_strength (side_confidence A) (side_points A) (side_points H)))))))"
proof -
  let ?d = "homeStrength (summarize H) (summarize A) - awayStrength (summarize H) (summarize A)"
  let ?g = "guarded_strength (side_confidence H) (side_points H) (side_points A)
        - guarded_strength (side_confidence A) (side_points A) (side_points H)"
  let ?s = "spec_strength (side_confidence H) (side_points H) (side_points A)
        - spec_strength (side_confidence A) (side_points A) (side_points H)"
  have "winProbability (heuristic H A) = Some (report ?d)"
    by (rule heuristic_wp)
  also have "report ?d = percent1 (clamp 0.02 0.98 (logistic (6 * ?d)))"
    by (rule report_eq)
  also have "?d = ?g"
    by (simp only: strengths_eq)
  finally have code: "winProbability (heuristic H A) =
      Some (percent1 (clamp 0.02 0.98 (logistic (6 * ?g))))" .
  have "0 \<le> side_points H \<and> 0 \<le> side_points A \<longrightarrow> ?g = ?s"
    by (simp add: guarded_is_spec)
  then have "0 \<le> side_points H \<and> 0 \<le> side_points A \<longrightarrow>
      winProbability (heuristic H A) = Some (percent1 (clamp 0.02 0.98 (logistic (6 * ?s))))"
    using code by metis
  with code show ?thesis by blast
qed

theorem win_probability_formula_witness:
  "0 \<le> side_points [Some home_scorer] \<and> 0 \<le> side_points []
   \<and> winProbability (heuristic [Some home_scorer] []) = Some 98
   \<and> percent1 (clamp 0.02 0.98 (logistic (6 *
        (spec_strength (side_confidence [Some home_scorer]) (side_points [Some home_scorer])
           (side_points [])
         - spec_strength (side_confidence []) (side_points [])
           (side_points [Some home_scorer]))))) = 98"
proof -
  have h: "side_confidence [Some home_scorer] = 0.7" "side_points [Some home_scorer] = 24"
    by (simp_all add: side_confidence_def side_points_def available_Cons available_Nil
        player_confidence_def player_points_def player_yards_def stat_or_zero_def
        home_scorer_def predicted_record_of) (simp add: record_of_def)
  have a: "side_confidence [] = 0.7" "side_points [] = 0"
    by (simp_all add: side_confidence_def side_points_def available_Nil)
  have code: "homeStrength (summarize [Some home_scorer]) (summarize [])
      - awayStrength (summarize [Some home_scorer]) (summarize []) = 48 / 5"
    by (simp add: strengths_eq h a guarded_strength_def)
  have reported: "winProbability (heuristic [Some home_scorer] []) = Some 98"
    unfolding heuristic_wp code by (simp add: report_high)
  have nonneg: "0 \<le> side_points [Some home_scorer] \<and> 0 \<le> side_points []"
    by (simp add: h a)
  from win_probability_formula [of "[Some home_scorer]" "[]"] nonneg reported
  show ?thesis by simp
qed

text \<open>
  C2, as stated, fails when a side's points are negative: with 24 home points against
  -2 away points the evaluator reports 98, where the formula with the divisor
  "opponent points plus 1" gives 2.
\<close>

theorem strength_divisor_counterexample:
  "winProbability (heuristic [Some home_scorer] [Some away_loss]) = Some 98
   \<and> percent1 (clamp 0.02 0.98 (logistic (6 *
        (spec_strength (side_confidence [Some home_scorer]) (side_points [Some home_scorer])
           (side_points [Some away_loss])
         - spec_strength (side_confidence [Some away_loss]) (side_points [Some away_loss])
           (side_points [Some home_scorer]))))) = 2"
proof -
  have h: "side_confidence [Some home_scorer] = 0.7" "side_points [Some home_scorer] = 24"
    by (simp_all add: side_confidence_def side_points_def available_Cons available_Nil
        player_confidence_def player_points_def player_yards_def stat_or_zero_def
        home_scorer_def predicted_record_of) (simp add: record_of_def)
  have a: "side_confidence [Some away_loss] = 0.7" "side_points [Some away_loss] = - 2"
    by (simp_all add: side_confidence_def side_points_def available_Cons available_Nil
        player_confidence_def player_points_def player_yards_def stat_or_zero_def
        away_loss_def predicted_record_of) (simp add: record_of_def)
  have code: "homeStrength (summarize [Some home_scorer]) (summarize [Some away_loss])
      - awayStrength (summarize [Some home_scorer]) (summarize [Some away_loss]) = 1204 / 125"
    by (simp add: strengths_eq h a guarded_strength_def)
  have spec: "spec_strength 0.7 24 (- 2) - spec_strength 0.7 (- 2) 24 = - 1196 / 125"
    by (simp add: spec_strength_def)
  have reported: "winProbability (heuristic [Some home_scorer] [Some away_loss]) = Some 98"
    unfolding heuristic_wp code by (simp add: report_high)
  have claimed: "percent1 (clamp 0.02 0.98 (logistic (6 * (- 1196 / 125)))) = 2"
    by (rule percent1_low) simp
  show ?thesis unfolding h a spec using reported claimed by blast
qed

text \<open>An assigned player whose record could not be fetched is left out of the average; it
  is not counted with the default 0.7.\<close>

lemma unavailable_record_not_averaged:
  "avgConfidence (summarize [Some star, None]) = 0.9"
  by (simp add: summarize_eq side_confidence_def available_Cons available_Nil
      player_confidence_def star_def record_of_def)




text \<open>
  C5, as the evaluator has it. \<open>evaluateLineup\<close> always ends with a result stored and the
  busy flag cleared. When the server call fails and every fetch for an assigned player
  fails, the stored result has a win probability between 2 and 98. When the fetches fail
  by rejection, each is caught and counts as no record, so the heuristic runs on no
  records and the stored result is the fixed one: win probability 50.0, zero points and
  yards, confidence 70.0, whatever the random reading is. The neutral fallback, within 7.5
  points of 50, is the stored result only when the \<open>try\<close> block of the local heuristic
  throws. (The distribution of the random source is not modelled, only its range.)
\<close>

theorem evaluation_never_fails:
  assumes "0 \<le> r" and "r < 1"
  shows "(\<exists>res. evaluationResult (evaluateLineup srv api r ps) = Some res)
       \<and> \<not> evaluatingLineup (evaluateLineup srv api r ps)
       \<and> (srv (lineup_payload_of ps) = ServerFailed
            \<and> (\<forall>i\<in>set (lineupIds (homeLineup ps) @ lineupIds (awayLineup ps)).
                  api i = Rejected \<or> api i = Threw)
           \<longrightarrow> (\<exists>res w. evaluationResult (evaluateLineup srv api r ps) = Some res
                  \<and> winProbability res = Some w \<and> 2 \<le> w \<and> w \<le> 98))
       \<and> (srv (lineup_payload_of ps) = ServerFailed
            \<and> (\<forall>i\<in>set (lineupIds (homeLineup ps) @ lineupIds (awayLineup ps)).
                  api i = Rejected)
           \<longrightarrow> evaluationResult (evaluateLineup srv api r ps) = Some even_odds)
       \<and> (srv (lineup_payload_of ps) = ServerFailed
            \<and> localEvaluateLineup_try api (homeLineup ps) (awayLineup ps) = Inl e
           \<longrightarrow> evaluationResult (evaluateLineup srv api r ps) = Some (neutral_fallback r)
               \<and> (\<exists>w. winProbability (neutral_fallback r) = Some w
                     \<and> 42.5 \<le> w \<and> w \<le> 57.5))"
proof -
  have res: "\<exists>res. evaluationResult (evaluateLineup srv api r ps) = Some res"
    by (simp add: evaluateLineup_def Let_def)
  have flag: "\<not> evaluatingLineup (evaluateLineup srv api r ps)"
    by (simp add: evaluateLineup_def Let_def)
  have failed: "srv (lineup_payload_of ps) = ServerFailed \<Longrightarrow>
      evaluationResult (evaluateLineup srv api r ps) =
        Some (localEvaluateLineup api r (homeLineup ps) (awayLineup ps))"
    by (simp add: evaluateLineup_def Let_def)
  have total: "srv (lineup_payload_of ps) = ServerFailed
            \<and> (\<forall>i\<in>set (lineupIds (homeLineup ps) @ lineupIds (awayLineup ps)).
                  api i = Rejected \<or> api i = Threw)
           \<longrightarrow> (\<exists>res w. evaluationResult (evaluateLineup srv api r ps) = Some res
                  \<and> winProbability res = Some w \<and> 2 \<le> w \<and> w \<le> 98)"
  proof
    assume h: "srv (lineup_payload_of ps) = ServerFailed
            \<and> (\<forall>i\<in>set (lineupIds (homeLineup ps) @ lineupIds (awayLineup ps)).
                  api i = Rejected \<or> api i = Threw)"
    let ?loc = "localEvaluateLineup api r (homeLineup ps) (awayLineup ps)"
    from h have "?loc = neutral_fallback r \<or> winProbability ?loc = Some 50"
      by (intro local_all_failed) simp
    then have "\<exists>w. winProbability ?loc = Some w \<and> 42.5 \<le> w \<and> w \<le> 57.5"
      using neutral_fallback_range [OF assms] by auto
    then obtain w where "winProbability ?loc = Some w" "42.5 \<le> w" "w \<le> 57.5" by blast
    moreover from this have "2 \<le> w" "w \<le> 98"
      by linarith+
    ultimately have "winProbability ?loc = Some w \<and> 2 \<le> w \<and> w \<le> 98"
      by blast
    then show "\<exists>res w. evaluationResult (evaluateLineup srv api r ps) = Some res
                  \<and> winProbability res = Some w \<and> 2 \<le> w \<and> w \<le> 98"
      using failed h by blast
  qed
  have rejected: "srv (lineup_payload_of ps) = ServerFailed
            \<and> (\<forall>i\<in>set (lineupIds (homeLineup ps) @ lineupIds (awayLineup ps)).
                  api i = Rejected)
           \<longrightarrow> evaluationResult (evaluateLineup srv api r ps) = Some even_odds"
    using failed local_all_rejected [of "homeLineup ps" "awayLineup ps" api r] by simp
  have thrown: "srv (lineup_payload_of ps) = ServerFailed
            \<and> localEvaluateLineup_try api (homeLineup ps) (awayLineup ps) = Inl e
           \<longrightarrow> evaluationResult (evaluateLineup srv api r ps) = Some (neutral_fallback r)
               \<and> (\<exists>w. winProbability (neutral_fallback r) = Some w
                     \<and> 42.5 \<le> w \<and> w \<le> 57.5)"
    using failed neutral_fallback_range [OF assms] by (simp add: localEvaluateLineup_def)
  show ?thesis using res flag total rejected thrown by blast
qed

theorem evaluation_never_fails_witness:
  "evaluationResult (evaluateLineup server_down fetch_rejects (1 / 4) one_each) = Some even_odds
   \<and> winProbability even_odds = Some 50
   \<and> evaluationResult (evaluateLineup server_down fetch_throws (1 / 4) one_each)
        = Some (neutral_fallback (1 / 4))
   \<and> winProbability (neutral_fallback (1 / 4)) = Some 46.3"
proof -
  have r: "(0::real) \<le> 1 / 4" "(1 / 4 :: real) < 1" by simp_all
  have t: "localEvaluateLineup_try fetch_throws (homeLineup one_each) (awayLineup one_each)
      = Inl TypeError"
    by (simp add: localEvaluateLineup_try_def lineupIds_one_each fetch_all_def fetch_throws_def)
  have v: "winProbability (neutral_fallback (1 / 4)) = Some 46.3"
    by (simp add: neutral_fallback_def Math_round_def)
  show ?thesis
    using evaluation_never_fails [OF r, where srv = server_down and ps = one_each
        and api = fetch_rejects]
      evaluation_never_fails [OF r, where srv = server_down and ps = one_each
        and api = fetch_throws and e = TypeError] t v
    by (simp add: server_down_def fetch_rejects_def even_odds_def)
qed

text \<open>
  C5, as stated, fails: with the server call failed and every fetch rejected, the stored
  result is the heuristic's fixed record with win probability 50.0, not the jittered
  fallback, which for a random reading of 0.9 would be 56.0.
\<close>

theorem total_failure_is_jittered_counterexample:
  "evaluationResult (evaluateLineup server_down fetch_rejects (9 / 10) one_each) = Some even_odds
   \<and> winProbability even_odds = Some 50
   \<and> winProbability (neutral_fallback (9 / 10)) = Some 56
   \<and> evaluationResult (evaluateLineup server_down fetch_rejects (9 / 10) one_each)
        \<noteq> Some (neutral_fallback (9 / 10))"
proof -
  have ids: "\<forall>i\<in>set (lineupIds (homeLineup one_each) @ lineupIds (awayLineup one_each)).
      fetch_rejects i = Rejected"
    by (simp add: fetch_rejects_def)
  have stored: "evaluationResult (evaluateLineup server_down fetch_rejects (9 / 10) one_each)
      = Some even_odds"
    using local_all_rejected [OF ids, of "9 / 10"]
    by (simp add: evaluateLineup_def server_down_def Let_def)
  have even: "winProbability even_odds = Some 50"
    by (simp add: even_odds_def)
  have jitter: "winProbability (neutral_fallback (9 / 10)) = Some 56"
    by (simp add: neutral_fallback_def Math_round_def)
  have "even_odds \<noteq> neutral_fallback (9 / 10)"
    using even jitter by auto
  then show ?thesis using stored even jitter by simp
qed

section \<open>Claims about the display\<close>

text \<open>The confidence circle clamps what it draws and prints.\<close>

lemma ConfidenceCircle_pct_range: "0 \<le> ConfidenceCircle_pct c \<and> ConfidenceCircle_pct c \<le> 1"
  by (simp add: ConfidenceCircle_pct_def)

text \<open>
  C8 fails on the per-stat tiles: a projection whose confidence and probability of
  exceeding the threshold are 1.4 is shown as 140 percent, with a bar 140 percent wide,
  while the confidence circle shows the same input as 100 percent.
\<close>

theorem stat_tile_shows_unclamped_values:
  "stat_confidence_text overconfident = Some 140
   \<and> stat_bar_width overconfident = Some 140
   \<and> stat_over_text overconfident = Some 140
   \<and> ConfidenceCircle_pct (Some 1.4) = 1
   \<and> ConfidenceCircle_text (Some 1.4) = 100"
  by (simp add: stat_confidence_text_def stat_bar_width_def stat_over_text_def overconfident_def
      ConfidenceCircle_pct_def ConfidenceCircle_text_def toFixed0_def or_num_def)

end
